theory Spec2Isabelle
  imports Complex_Main
begin

section \<open>Data model (src/types/index.ts, src/db/schema.sql)\<close>

text \<open>
  Rows of a table are kept in insertion order and the id the database generates for a row
  is modelled as the row's position in its table: no table of the service ever loses a row
  (webhooks, addresses and contracts are deactivated, never deleted). Timestamps are
  integers (milliseconds since the epoch). Columns that no function modelled here reads
  (names, descriptions, creator references) are left out.
\<close>

datatype WebhookDeliveryStatus =
  PENDING | IN_PROGRESS | SUCCEEDED | FAILED | RETRYING | MAX_RETRIES_EXCEEDED

datatype EventType =
    TRANSACTION_RECEIVED | TRANSACTION_SENT | ADA_RECEIVED | ADA_SENT
  | TOKEN_RECEIVED | TOKEN_SENT | TOKEN_MINTED | TOKEN_BURNED
  | NFT_RECEIVED | NFT_SENT | CONTRACT_EXECUTED | STAKE_DELEGATED
  | REWARD_RECEIVED | GOVERNANCE_VOTE | DEFI_INTERACTION | DEX_INTERACTION
  | COLLATERAL_LOCKED | COLLATERAL_RELEASED | ORACLE_UPDATE | METADATA_ADDED
  | MULTI_SIG_TRANSACTION | TIME_LOCKED_EXECUTION

text \<open>
  \<^verbatim>\<open>CardanoTransaction\<close>: the transaction detail returned by \<^verbatim>\<open>getTransactionInfo\<close>.
  \<open>metadata\<close> is a JavaScript object or \<^verbatim>\<open>undefined\<close>: \<open>None\<close> is \<^verbatim>\<open>undefined\<close>,
  \<open>Some kvs\<close> is an object with the entries \<open>kvs\<close> (\<open>Some []\<close> is \<^verbatim>\<open>{}\<close>).
\<close>

record BlockfrostTransactionResponse =
  hash :: string
  block_height :: int
  block_time :: int

record CardanoTransaction = BlockfrostTransactionResponse +
  asset_mint_count :: int
  metadata :: "(string \<times> string) list option"

text \<open>
  An entry of a transaction's \<^verbatim>\<open>inputs\<close> or \<^verbatim>\<open>outputs\<close>, and an element of the list
  returned by \<^verbatim>\<open>getAddressTransactions\<close> (typed \<^verbatim>\<open>any[]\<close> in the source). A field that may
  be missing is an option (\<open>None\<close>: \<^verbatim>\<open>undefined\<close>, \<^verbatim>\<open>null\<close> or, for \<^verbatim>\<open>inputs\<close> and
  \<^verbatim>\<open>outputs\<close>, not an array); so is an element of an amount list. The entries of
  \<^verbatim>\<open>inputs\<close> and \<^verbatim>\<open>outputs\<close> themselves are objects.
\<close>

record amount_entry =
  unit :: string
  quantity :: string

record utxo_entry =
  address :: string
  amount :: "amount_entry option list option"

record address_tx =
  tx_hash :: string
  inputs :: "utxo_entry list option"
  outputs :: "utxo_entry list option"

record MonitoredAddress =
  addr_id :: string
  addr_address :: string

record MonitoredContract =
  con_id :: string
  con_address :: string

text \<open>
  The Blockfrost client as the service uses it: each call returns its result or throws
  (\<open>Inl\<close>). \<^verbatim>\<open>txsMetadata\<close> returns the list of (label, json_metadata) items.
\<close>

record blockfrost =
  addressesTransactions :: "string \<Rightarrow> string + address_tx list"
  txs :: "string \<Rightarrow> string + BlockfrostTransactionResponse"
  txsMetadata :: "string \<Rightarrow> string + (string \<times> string) list"

datatype event_data =
    AddressData CardanoTransaction string
  | ContractData CardanoTransaction string

record TransactionEvent =
  te_tx_hash :: string
  te_block_height :: "int option"
  te_block_time :: "int option"
  event_type :: EventType
  event_data :: event_data
  address_id :: "string option"
  contract_id :: "string option"
  processed :: bool

record Webhook =
  url :: string
  secret :: "string option"
  event_types :: "EventType list"
  headers :: "(string \<times> string) list option"
  is_active :: bool

record WebhookDelivery =
  webhook_id :: nat
  event_id :: nat
  attempt_count :: int
  status :: WebhookDeliveryStatus
  status_code :: "int option"
  response_body :: "string option"
  next_retry_at :: "int option"
  created_at :: int
  completed_at :: "int option"

record db =
  transaction_events :: "TransactionEvent list"
  webhooks :: "Webhook list"
  webhook_deliveries :: "WebhookDelivery list"

text \<open>\<^verbatim>\<open>config.webhook\<close> (src/config/index.ts) with its defaults.\<close>

record webhook_config =
  maxRetries :: int
  retryDelay :: int

definition config_webhook :: webhook_config where
  "config_webhook = \<lparr> maxRetries = 5, retryDelay = 30000 \<rparr>"

section \<open>The process and its environment\<close>

text \<open>
  What \<^verbatim>\<open>axios.post\<close> gives back: the promise resolves with a response (axios resolves
  only for a 2xx status) or rejects with an error that may carry a response. In
  \<open>Rejected resp msg\<close>, \<open>resp\<close> is \<^verbatim>\<open>error.response\<close> as (status, data), where data is
  \<open>None\<close> when \<^verbatim>\<open>response.data\<close> is falsy and otherwise its JSON text, and \<open>msg\<close> is
  \<^verbatim>\<open>error.message\<close>.
\<close>

datatype axios_result =
    Resolved int string
  | Rejected "(int \<times> string option) option" "string option"

text \<open>
  One invocation of \<^verbatim>\<open>deliverWebhook\<close> is suspended at each \<^verbatim>\<open>await\<close>; the value below
  says which one, together with the local variables alive there (\<^verbatim>\<open>delivery\<close> is the row
  loaded by the first query and never reloaded).
\<close>

datatype pc =
    AtSelect
  | AtMarkInProgress WebhookDelivery
  | AtPost WebhookDelivery
  | AtRecordSuccess WebhookDelivery int string
  | AtRecordFailure WebhookDelivery int "string option"
  | AtFailed string
  | Finished

text \<open>
  The state of the process: the database, the \<^verbatim>\<open>setImmediate\<close> callbacks registered by
  \<^verbatim>\<open>queueWebhookDelivery\<close> and not yet run, and the invocations of \<^verbatim>\<open>deliverWebhook\<close> in
  flight. \<open>faults\<close> is the environment's script for the database: the outcome of each of
  the next queries in the order they take effect, \<open>Some msg\<close> for a query that throws
  \<^verbatim>\<open>Error(msg)\<close>; once the script is used up every query succeeds.
  \<open>lastProcessedTxs\<close> is the monitor's cache of processed transactions, two JavaScript
  \<^verbatim>\<open>Set\<close>s, each kept as the list of its members in insertion order.
  \<open>last_checked_at\<close> is that column of the monitored addresses and contracts, by row id.
  Two logs record calls that leave the process: \<open>started\<close> the ids of the events for which
  \<^verbatim>\<open>createTransactionEvent\<close> has called \<^verbatim>\<open>processEvent\<close> (without awaiting it), \<open>fetched\<close>
  the transaction hashes passed to \<^verbatim>\<open>getTransactionInfo\<close>.
\<close>

record cache =
  addresses :: "string list"
  contracts :: "string list"
  maxSize :: nat

record world =
  store :: db
  faults :: "string option list"
  immediates :: "nat list"
  running :: "(nat \<times> pc) list"
  lastProcessedTxs :: cache
  last_checked_at :: "string \<rightharpoonup> int"
  started :: "nat list"
  fetched :: "string list"

definition next_fault :: "world \<Rightarrow> string option \<times> world" where
  "next_fault w = (case faults w of [] \<Rightarrow> (None, w) | f # fs \<Rightarrow> (f, w\<lparr>faults := fs\<rparr>))"

definition update_where_id :: "nat \<Rightarrow> ('a \<Rightarrow> 'a) \<Rightarrow> 'a list \<Rightarrow> 'a list" where
  "update_where_id i f xs = (if i < length xs then xs[i := f (xs ! i)] else xs)"

definition update_delivery :: "nat \<Rightarrow> (WebhookDelivery \<Rightarrow> WebhookDelivery) \<Rightarrow> world \<Rightarrow> world" where
  "update_delivery deliveryId f w =
     w\<lparr>store := (store w)\<lparr>webhook_deliveries :=
          update_where_id deliveryId f (webhook_deliveries (store w))\<rparr>\<rparr>"

section \<open>Blockfrost service (src/blockchain/blockfrost.ts)\<close>

text \<open>\<^verbatim>\<open>acc[item.label] = item.json_metadata\<close>: a later value for a key replaces the earlier.\<close>

fun assign :: "string \<Rightarrow> string \<Rightarrow> (string \<times> string) list \<Rightarrow> (string \<times> string) list" where
  "assign k v [] = [(k, v)]"
| "assign k v ((k', v') # kvs) = (if k = k' then (k, v) # kvs else (k', v') # assign k v kvs)"

text \<open>
  \<^verbatim>\<open>getTransactionInfo\<close>, lines 72-102. The object literal of lines 78-82 spreads the
  response first and then sets \<^verbatim>\<open>asset_mint_count: 0\<close> and \<^verbatim>\<open>metadata: {}\<close>. An error of the
  metadata call is caught and leaves the default.
\<close>

definition getTransactionInfo :: "blockfrost \<Rightarrow> string \<Rightarrow> string + CardanoTransaction" where
  "getTransactionInfo bf txHash =
     (case txs bf txHash of
        Inl err \<Rightarrow> Inl err
      | Inr txInfo \<Rightarrow>
          (let transaction =
                 \<lparr> hash = hash txInfo, block_height = block_height txInfo,
                   block_time = block_time txInfo, asset_mint_count = 0, metadata = Some [] \<rparr>
           in case txsMetadata bf txHash of
                Inl _ \<Rightarrow> Inr transaction
              | Inr items \<Rightarrow>
                  if length items > 0
                  then Inr (transaction\<lparr>metadata :=
                              Some (foldl (\<lambda>acc item. assign (fst item) (snd item) acc) [] items)\<rparr>)
                  else Inr transaction))"

section \<open>Monitor (src/blockchain/monitor.ts)\<close>

text \<open>\<^verbatim>\<open>lastProcessedTxs\<close>, lines 9-18, with \<^verbatim>\<open>Set.add\<close>.\<close>

definition reset :: "cache \<Rightarrow> cache" where
  "reset c = c\<lparr>addresses := [], contracts := []\<rparr>"

definition Set_add :: "string \<Rightarrow> string list \<Rightarrow> string list" where
  "Set_add k ks = (if k \<in> set ks then ks else ks @ [k])"

text \<open>
  \<^verbatim>\<open>parseInt(s, 10)\<close>: leading (ASCII) white space, an optional sign, then the longest run of
  decimal digits; \<open>None\<close> is \<^verbatim>\<open>NaN\<close>. A sum with \<^verbatim>\<open>NaN\<close> is \<^verbatim>\<open>NaN\<close>, and \<^verbatim>\<open>NaN > 0\<close> is false.
  The integers are exact; a double holds them exactly below \<open>2^53\<close>.
\<close>

definition is_white :: "char \<Rightarrow> bool" where
  "is_white c \<longleftrightarrow> (of_char c :: nat) \<in> {9, 10, 11, 12, 13, 32}"

definition is_digit :: "char \<Rightarrow> bool" where
  "is_digit c \<longleftrightarrow> 48 \<le> (of_char c :: nat) \<and> (of_char c :: nat) \<le> 57"

definition digits_value :: "string \<Rightarrow> nat" where
  "digits_value ds = foldl (\<lambda>n c. 10 * n + (of_char c - 48)) 0 ds"

definition parseInt :: "string \<Rightarrow> int option" where
  "parseInt s =
     (let t = dropWhile is_white s;
          neg = (case t of c # _ \<Rightarrow> c = CHR ''-'' | [] \<Rightarrow> False);
          u = (case t of c # r \<Rightarrow> if c = CHR ''-'' \<or> c = CHR ''+'' then r else t | [] \<Rightarrow> t);
          ds = takeWhile is_digit u
      in if ds = [] then None
         else Some (if neg then - int (digits_value ds) else int (digits_value ds)))"

definition number_add :: "int option \<Rightarrow> int option \<Rightarrow> int option" where
  "number_add a b = (case (a, b) of (Some x, Some y) \<Rightarrow> Some (x + y) | _ \<Rightarrow> None)"

definition number_positive :: "int option \<Rightarrow> bool" where
  "number_positive a = (case a of Some x \<Rightarrow> 0 < x | None \<Rightarrow> False)"

text \<open>
  The amounts at the watched address among the entries of one side of a transaction:
  \<^verbatim>\<open>.filter(e => e.address === address.address).flatMap(e => e.amount || [])\<close>, then the
  filter \<^verbatim>\<open>amount && amount.unit === 'lovelace'\<close> (or \<^verbatim>\<open>!==\<close>), which drops a missing
  element.
\<close>

definition amounts_at :: "string \<Rightarrow> utxo_entry list \<Rightarrow> amount_entry option list" where
  "amounts_at a entries =
     concat (map (\<lambda>e. case amount e of None \<Rightarrow> [] | Some xs \<Rightarrow> xs)
               (filter (\<lambda>e. address e = a) entries))"

definition present_where :: "(amount_entry \<Rightarrow> bool) \<Rightarrow> amount_entry option list \<Rightarrow> amount_entry list" where
  "present_where P xs = concat (map (\<lambda>x. case x of None \<Rightarrow> [] | Some am \<Rightarrow> if P am then [am] else []) xs)"

definition lovelace_sum :: "string \<Rightarrow> utxo_entry list option \<Rightarrow> int option" where
  "lovelace_sum a side =
     (case side of
        None \<Rightarrow> Some 0
      | Some entries \<Rightarrow>
          foldl (\<lambda>sum am. number_add sum (parseInt (quantity am))) (Some 0)
            (present_where (\<lambda>am. unit am = ''lovelace'') (amounts_at a entries)))"

definition tokens_of :: "string \<Rightarrow> utxo_entry list option \<Rightarrow> amount_entry list" where
  "tokens_of a side =
     (case side of
        None \<Rightarrow> []
      | Some entries \<Rightarrow> present_where (\<lambda>am. unit am \<noteq> ''lovelace'') (amounts_at a entries))"

definition appears_in :: "string \<Rightarrow> utxo_entry list option \<Rightarrow> bool" where
  "appears_in a side = (case side of None \<Rightarrow> False | Some entries \<Rightarrow> \<exists>e \<in> set entries. address e = a)"

text \<open>
  The list \<^verbatim>\<open>eventTypes\<close> built by lines 146-241 of \<^verbatim>\<open>checkAddressTransactions\<close> for the
  list element \<open>tx\<close> and its detail \<open>txInfo\<close>. \<^verbatim>\<open>if (txInfo.metadata)\<close> tests the value for
  truthiness, and every object is truthy.
\<close>

definition eventTypes :: "MonitoredAddress \<Rightarrow> address_tx \<Rightarrow> CardanoTransaction \<Rightarrow> EventType list" where
  "eventTypes a tx txInfo =
     (let isReceiver = appears_in (addr_address a) (outputs tx);
          isSender = appears_in (addr_address a) (inputs tx);
          adaReceived = lovelace_sum (addr_address a) (outputs tx);
          tokensReceived = tokens_of (addr_address a) (outputs tx);
          adaSent = lovelace_sum (addr_address a) (inputs tx);
          tokensSent = tokens_of (addr_address a) (inputs tx)
      in (if isReceiver then
            [TRANSACTION_RECEIVED]
            @ (if number_positive adaReceived then [ADA_RECEIVED] else [])
            @ (if length tokensReceived > 0 then
                 (if \<exists>token \<in> set tokensReceived. quantity token = ''1''
                  then [NFT_RECEIVED] else [])
                 @ [TOKEN_RECEIVED]
               else [])
          else [])
       @ (if isSender then
            [TRANSACTION_SENT]
            @ (if number_positive adaSent then [ADA_SENT] else [])
            @ (if length tokensSent > 0 then
                 (if \<exists>token \<in> set tokensSent. quantity token = ''1''
                  then [NFT_SENT] else [])
                 @ [TOKEN_SENT]
               else [])
          else [])
       @ (if metadata txInfo \<noteq> None then [METADATA_ADDED] else []))"

text \<open>
  \<^verbatim>\<open>createTransactionEvent\<close>, lines 344-375: the INSERT (which always stores
  \<open>processed = false\<close>), then the call of \<^verbatim>\<open>processEvent\<close>, not awaited.
\<close>

definition createTransactionEvent :: "TransactionEvent \<Rightarrow> world \<Rightarrow> (string + nat) \<times> world" where
  "createTransactionEvent eventData w =
     (case next_fault w of
        (Some msg, w') \<Rightarrow> (Inl msg, w')
      | (None, w') \<Rightarrow>
          (let eventId = length (transaction_events (store w'))
           in (Inr eventId,
               w'\<lparr>store := (store w')\<lparr>transaction_events :=
                      transaction_events (store w') @ [eventData\<lparr>processed := False\<rparr>]\<rparr>,
                  started := started w' @ [eventId]\<rparr>)))"

text \<open>A sequence of awaited \<^verbatim>\<open>createTransactionEvent\<close> calls; the first error ends it.\<close>

fun create_events :: "TransactionEvent list \<Rightarrow> world \<Rightarrow> string option \<times> world" where
  "create_events [] w = (None, w)"
| "create_events (e # es) w =
     (case createTransactionEvent e w of
        (Inl msg, w') \<Rightarrow> (Some msg, w')
      | (Inr _, w') \<Rightarrow> create_events es w')"

definition address_event ::
  "MonitoredAddress \<Rightarrow> address_tx \<Rightarrow> CardanoTransaction \<Rightarrow> EventType \<Rightarrow> TransactionEvent" where
  "address_event a tx txInfo eventType =
     \<lparr> te_tx_hash = tx_hash tx, te_block_height = Some (block_height txInfo),
       te_block_time = Some (block_time txInfo * 1000), event_type = eventType,
       event_data = AddressData txInfo (addr_address a),
       address_id = Some (addr_id a), contract_id = None, processed = False \<rparr>"

definition contract_event ::
  "MonitoredContract \<Rightarrow> address_tx \<Rightarrow> CardanoTransaction \<Rightarrow> EventType \<Rightarrow> TransactionEvent" where
  "contract_event c tx txInfo eventType =
     \<lparr> te_tx_hash = tx_hash tx, te_block_height = Some (block_height txInfo),
       te_block_time = Some (block_time txInfo * 1000), event_type = eventType,
       event_data = ContractData txInfo (con_address c),
       address_id = None, contract_id = Some (con_id c), processed = False \<rparr>"

text \<open>
  Lines 132-140 and 287-295: the key goes into its set; when that set has grown beyond
  \<open>maxSize\<close>, both sets are emptied and the key is added again.
\<close>

definition remember_address_tx :: "string \<Rightarrow> cache \<Rightarrow> cache" where
  "remember_address_tx txKey c =
     (let c1 = c\<lparr>addresses := Set_add txKey (addresses c)\<rparr>
      in if length (addresses c1) > maxSize c1
         then (reset c1)\<lparr>addresses := Set_add txKey (addresses (reset c1))\<rparr>
         else c1)"


text \<open>
  The body of the loop of \<^verbatim>\<open>checkAddressTransactions\<close> from line 132 on, for a transaction
  that was not skipped; the result is the error that leaves the loop, if any.
\<close>

definition process_address_tx ::
  "blockfrost \<Rightarrow> MonitoredAddress \<Rightarrow> address_tx \<Rightarrow> world \<Rightarrow> string option \<times> world" where
  "process_address_tx bf a tx w =
     (let txKey = addr_id a @ '':'' @ tx_hash tx;
          w1 = w\<lparr>lastProcessedTxs := remember_address_tx txKey (lastProcessedTxs w),
                 fetched := fetched w @ [tx_hash tx]\<rparr>
      in case getTransactionInfo bf (tx_hash tx) of
           Inl err \<Rightarrow> (Some err, w1)
         | Inr txInfo \<Rightarrow>
             create_events (map (address_event a tx txInfo) (eventTypes a tx txInfo)) w1)"

fun scan_address_txs ::
  "blockfrost \<Rightarrow> MonitoredAddress \<Rightarrow> address_tx list \<Rightarrow> world \<Rightarrow> string option \<times> world" where
  "scan_address_txs bf a [] w = (None, w)"
| "scan_address_txs bf a (tx # rest) w =
     (if addr_id a @ '':'' @ tx_hash tx \<in> set (addresses (lastProcessedTxs w))
      then scan_address_txs bf a rest w
      else (case process_address_tx bf a tx w of
              (Some err, w') \<Rightarrow> (Some err, w')
            | (None, w') \<Rightarrow> scan_address_txs bf a rest w'))"

text \<open>
  \<^verbatim>\<open>checkAddressTransactions\<close>, lines 113-263. Every error is caught and logged by the
  outer \<^verbatim>\<open>catch\<close>, which ends the scan.
\<close>

definition checkAddressTransactions :: "blockfrost \<Rightarrow> int \<Rightarrow> MonitoredAddress \<Rightarrow> world \<Rightarrow> world" where
  "checkAddressTransactions bf now a w =
     (case addressesTransactions bf (addr_address a) of
        Inl err \<Rightarrow> w
      | Inr transactions \<Rightarrow>
          (case next_fault w of
             (Some msg, w') \<Rightarrow> w'
           | (None, w') \<Rightarrow>
               snd (scan_address_txs bf a transactions
                      (w'\<lparr>last_checked_at := (last_checked_at w')(addr_id a \<mapsto> now)\<rparr>))))"

text \<open>
  The events that lines 300-330 of \<^verbatim>\<open>checkContractTransactions\<close> create for a transaction
  and its detail: one \<open>CONTRACT_EXECUTED\<close> event, then a \<open>TOKEN_MINTED\<close> event under the
  test of line 316.
\<close>

definition contract_events ::
  "MonitoredContract \<Rightarrow> address_tx \<Rightarrow> CardanoTransaction \<Rightarrow> TransactionEvent list" where
  "contract_events c tx txInfo =
     contract_event c tx txInfo CONTRACT_EXECUTED
     # (if asset_mint_count txInfo > 0 then [contract_event c tx txInfo TOKEN_MINTED] else [])"




section \<open>Webhook processor (src/webhooks/processor.ts)\<close>

subsection \<open>deliverWebhook\<close>

text \<open>
  The rows of the join of line 98: the delivery with the given id, when its webhook and
  its event exist. Of the joined row only the delivery's own columns are used for what is
  written back.
\<close>

definition select_delivery :: "db \<Rightarrow> nat \<Rightarrow> WebhookDelivery list" where
  "select_delivery d deliveryId =
     (if deliveryId < length (webhook_deliveries d) then
        (let wd = webhook_deliveries d ! deliveryId in
         if webhook_id wd < length (webhooks d) \<and> event_id wd < length (transaction_events d)
         then [wd] else [])
      else [])"

text \<open>
  JavaScript numbers: \<^verbatim>\<open>Math.pow(2, n)\<close> for an integer \<open>n\<close> is an exact power of two, also
  for negative \<open>n\<close>; \<^verbatim>\<open>new Date(t)\<close> drops the fraction of \<open>t\<close> (towards zero). The numbers
  are modelled as exact rationals, which is what the doubles hold as long as they stay
  below \<open>2^53\<close>.
\<close>

definition Math_pow2 :: "int \<Rightarrow> rat" where
  "Math_pow2 n = (if 0 \<le> n then 2 ^ nat n else 1 / 2 ^ nat (- n))"

definition new_Date :: "rat \<Rightarrow> int" where
  "new_Date t = (if 0 \<le> t then \<lfloor>t\<rfloor> else \<lceil>t\<rceil>)"

definition error_message :: "string \<Rightarrow> string" where
  "error_message msg = (if msg = [] then ''Unknown error'' else msg)"

text \<open>
  One step of an invocation: from one \<^verbatim>\<open>await\<close> to the next. \<open>now\<close> is the clock reading
  (\<^verbatim>\<open>Date.now()\<close>, \<^verbatim>\<open>CURRENT_TIMESTAMP\<close>) and \<open>post\<close> the outcome of the HTTP request, used
  by the step that waits for it. Building the request (payload, HMAC signature, headers)
  changes nothing in the state and is not modelled.
  \<^item> \<open>AtSelect\<close>: lines 98-112; no row: log and return.
  \<^item> \<open>AtMarkInProgress\<close>: the UPDATE of line 115.
  \<^item> \<open>AtPost\<close>: \<^verbatim>\<open>axios.post\<close>, line 159, and the first lines of the inner \<^verbatim>\<open>catch\<close>.
  \<^item> \<open>AtRecordSuccess\<close>: the UPDATE of line 162; it is inside the inner \<^verbatim>\<open>try\<close>, so an
    error it throws is handled by the inner \<^verbatim>\<open>catch\<close> like a failed request.
  \<^item> \<open>AtRecordFailure\<close>: lines 177-203.
  \<^item> \<open>AtFailed\<close>: the outer \<^verbatim>\<open>catch\<close>, lines 205-215; an error thrown there rejects the
    promise, which the caller logs.
\<close>

fun deliverWebhook_step ::
  "webhook_config \<Rightarrow> int \<Rightarrow> axios_result \<Rightarrow> nat \<Rightarrow> world \<times> pc \<Rightarrow> world \<times> pc" where
  "deliverWebhook_step cfg now post deliveryId (w, AtSelect) =
     (case next_fault w of
        (Some msg, w') \<Rightarrow> (w', AtFailed msg)
      | (None, w') \<Rightarrow>
          (case select_delivery (store w') deliveryId of
             [] \<Rightarrow> (w', Finished)
           | delivery # _ \<Rightarrow> (w', AtMarkInProgress delivery)))"
| "deliverWebhook_step cfg now post deliveryId (w, AtMarkInProgress delivery) =
     (case next_fault w of
        (Some msg, w') \<Rightarrow> (w', AtFailed msg)
      | (None, w') \<Rightarrow>
          (update_delivery deliveryId
             (\<lambda>r. r\<lparr>status := IN_PROGRESS, attempt_count := attempt_count r + 1\<rparr>) w',
           AtPost delivery))"
| "deliverWebhook_step cfg now post deliveryId (w, AtPost delivery) =
     (case post of
        Resolved st data \<Rightarrow> (w, AtRecordSuccess delivery st data)
      | Rejected resp msg \<Rightarrow>
          (let statusCode = (case resp of Some (st, _) \<Rightarrow> st | None \<Rightarrow> 0);
               responseBody = (case resp of Some (_, Some data) \<Rightarrow> Some data | _ \<Rightarrow> msg)
           in (w, AtRecordFailure delivery statusCode responseBody)))"
| "deliverWebhook_step cfg now post deliveryId (w, AtRecordSuccess delivery st data) =
     (case next_fault w of
        (Some msg, w') \<Rightarrow> (w', AtRecordFailure delivery 0 (Some msg))
      | (None, w') \<Rightarrow>
          (update_delivery deliveryId
             (\<lambda>r. r\<lparr>status := SUCCEEDED, status_code := Some st, response_body := Some data,
                    completed_at := Some now\<rparr>) w',
           Finished))"
| "deliverWebhook_step cfg now post deliveryId (w, AtRecordFailure delivery statusCode responseBody) =
     (let shouldRetry = attempt_count delivery < maxRetries cfg in
      if shouldRetry then
        (let retryDelayMs = of_int (retryDelay cfg) * Math_pow2 (attempt_count delivery - 1);
             nextRetryAt = new_Date (of_int now + retryDelayMs)
         in case next_fault w of
              (Some msg, w') \<Rightarrow> (w', AtFailed msg)
            | (None, w') \<Rightarrow>
                (update_delivery deliveryId
                   (\<lambda>r. r\<lparr>status := RETRYING, status_code := Some statusCode,
                          response_body := responseBody, next_retry_at := Some nextRetryAt\<rparr>) w',
                 Finished))
      else
        (case next_fault w of
           (Some msg, w') \<Rightarrow> (w', AtFailed msg)
         | (None, w') \<Rightarrow>
             (update_delivery deliveryId
                (\<lambda>r. r\<lparr>status := MAX_RETRIES_EXCEEDED, status_code := Some statusCode,
                       response_body := responseBody, completed_at := Some now\<rparr>) w',
              Finished)))"
| "deliverWebhook_step cfg now post deliveryId (w, AtFailed msg) =
     (case next_fault w of
        (Some _, w') \<Rightarrow> (w', Finished)
      | (None, w') \<Rightarrow>
          (update_delivery deliveryId
             (\<lambda>r. r\<lparr>status := FAILED, response_body := Some (error_message msg),
                    completed_at := Some now\<rparr>) w',
           Finished))"
| "deliverWebhook_step cfg now post deliveryId (w, Finished) = (w, Finished)"

text \<open>
  \<^verbatim>\<open>deliverWebhook\<close> run from its call to its return with nothing else in between: at most
  six steps lead from \<open>AtSelect\<close> to \<open>Finished\<close>.
\<close>

definition deliverWebhook :: "webhook_config \<Rightarrow> int \<Rightarrow> axios_result \<Rightarrow> nat \<Rightarrow> world \<Rightarrow> world" where
  "deliverWebhook cfg now post deliveryId w =
     (let s = deliverWebhook_step cfg now post deliveryId
      in fst (s (s (s (s (s (s (w, AtSelect))))))))"

subsection \<open>queueWebhookDelivery, processEvent\<close>

text \<open>
  \<^verbatim>\<open>queueWebhookDelivery\<close>, lines 60-90: the INSERT of the row \<open>new_delivery\<close> (the values
  of lines 67-73; \<open>next_retry_at\<close> is \<^verbatim>\<open>new Date()\<close>, "schedule for immediate delivery"),
  then the registration of the immediate delivery. The table's foreign keys make the
  INSERT throw when the webhook or the event does not exist. The result is the new
  delivery's id, or the error rethrown.
\<close>

definition new_delivery :: "int \<Rightarrow> nat \<Rightarrow> nat \<Rightarrow> WebhookDelivery" where
  "new_delivery now eventId webhookId =
     \<lparr> webhook_id = webhookId, event_id = eventId, attempt_count = 0,
       status = PENDING, status_code = None, response_body = None,
       next_retry_at = Some now, created_at = now, completed_at = None \<rparr>"

definition queueWebhookDelivery :: "int \<Rightarrow> nat \<Rightarrow> nat \<Rightarrow> world \<Rightarrow> (string + nat) \<times> world" where
  "queueWebhookDelivery now webhookId eventId w =
     (case next_fault w of
        (Some msg, w') \<Rightarrow> (Inl msg, w')
      | (None, w') \<Rightarrow>
          if webhookId < length (webhooks (store w')) \<and>
             eventId < length (transaction_events (store w'))
          then
            (let deliveryId = length (webhook_deliveries (store w'))
             in (Inr deliveryId,
                 w'\<lparr>store := (store w')\<lparr>webhook_deliveries :=
                        webhook_deliveries (store w') @ [new_delivery now eventId webhookId]\<rparr>,
                    immediates := immediates w' @ [deliveryId]\<rparr>))
          else (Inl ''violates foreign key constraint'', w'))"

text \<open>The loop of lines 48-50; the first error ends it.\<close>

fun queue_webhooks :: "int \<Rightarrow> nat list \<Rightarrow> nat \<Rightarrow> world \<Rightarrow> string option \<times> world" where
  "queue_webhooks now [] eventId w = (None, w)"
| "queue_webhooks now (webhookId # rest) eventId w =
     (case queueWebhookDelivery now webhookId eventId w of
        (Inl msg, w') \<Rightarrow> (Some msg, w')
      | (Inr _, w') \<Rightarrow> queue_webhooks now rest eventId w')"

text \<open>
  The query of line 33: the ids of the active webhooks whose \<open>event_types\<close> contain the
  event's type.
\<close>

definition select_webhooks :: "db \<Rightarrow> EventType \<Rightarrow> nat list" where
  "select_webhooks d t =
     filter (\<lambda>i. is_active (webhooks d ! i) \<and> t \<in> set (event_types (webhooks d ! i)))
       [0 ..< length (webhooks d)]"

text \<open>
  \<^verbatim>\<open>processEvent\<close>, lines 11-55. The result is \<open>Some msg\<close> when the promise rejects (the
  \<^verbatim>\<open>catch\<close> logs and rethrows).
\<close>

definition processEvent :: "int \<Rightarrow> nat \<Rightarrow> world \<Rightarrow> string option \<times> world" where
  "processEvent now eventId w =
     (case next_fault w of
        (Some msg, w1) \<Rightarrow> (Some msg, w1)
      | (None, w1) \<Rightarrow>
          if \<not> eventId < length (transaction_events (store w1)) then (None, w1)
          else
            (let event = transaction_events (store w1) ! eventId in
             case next_fault w1 of
               (Some msg, w2) \<Rightarrow> (Some msg, w2)
             | (None, w2) \<Rightarrow>
                 (let w3 = w2\<lparr>store := (store w2)\<lparr>transaction_events :=
                              update_where_id eventId (\<lambda>e. e\<lparr>processed := True\<rparr>)
                                (transaction_events (store w2))\<rparr>\<rparr>
                  in case next_fault w3 of
                       (Some msg, w4) \<Rightarrow> (Some msg, w4)
                     | (None, w4) \<Rightarrow>
                         (let matching = select_webhooks (store w4) (event_type event)
                          in if matching = [] then (None, w4)
                             else queue_webhooks now matching eventId w4))))"

subsection \<open>processWebhookQueue\<close>

text \<open>
  The query of line 225: pending deliveries and retrying ones that are due (a NULL
  \<open>next_retry_at\<close> is never due), at most 100 of them. SQL leaves open which 100; the
  model takes them in table order.
\<close>

definition due :: "int \<Rightarrow> WebhookDelivery \<Rightarrow> bool" where
  "due now r \<longleftrightarrow>
     status r = PENDING \<or>
     (status r = RETRYING \<and> (case next_retry_at r of None \<Rightarrow> False | Some t \<Rightarrow> t \<le> now))"

definition select_due :: "int \<Rightarrow> db \<Rightarrow> nat list" where
  "select_due now d =
     take 100 (filter (\<lambda>i. due now (webhook_deliveries d ! i)) [0 ..< length (webhook_deliveries d)])"

text \<open>
  \<^verbatim>\<open>processWebhookQueue\<close>, lines 222-249: each selected delivery gets its own invocation
  of \<^verbatim>\<open>deliverWebhook\<close>, started and not awaited. An error of the query is logged.
\<close>

definition processWebhookQueue :: "int \<Rightarrow> world \<Rightarrow> world" where
  "processWebhookQueue now w =
     (case next_fault w of
        (Some msg, w') \<Rightarrow> w'
      | (None, w') \<Rightarrow>
          w'\<lparr>running := running w' @ map (\<lambda>i. (i, AtSelect)) (select_due now (store w'))\<rparr>)"

subsection \<open>The event loop\<close>

text \<open>
  What can happen next in the process, one action at a time, each running from one
  \<^verbatim>\<open>await\<close> to the next:
  \<^item> \<open>ProcessEvent\<close>: \<^verbatim>\<open>processEvent\<close> for an event (started by \<^verbatim>\<open>createTransactionEvent\<close>),
    taken as one action: of the deliveries it only inserts new rows;
  \<^item> \<open>Immediate\<close>: the oldest \<^verbatim>\<open>setImmediate\<close> callback runs and starts \<^verbatim>\<open>deliverWebhook\<close>;
  \<^item> \<open>Sweep\<close>: the 5-second timer of \<^verbatim>\<open>startWebhookProcessor\<close> runs \<^verbatim>\<open>processWebhookQueue\<close>;
  \<^item> \<open>Resume k\<close>: the \<open>k\<close>-th invocation of \<^verbatim>\<open>deliverWebhook\<close> in flight takes its next step;
  \<^item> \<open>Restart\<close>: the process exits (src/index.ts, SIGTERM and SIGINT) and is started again:
    callbacks, invocations and the monitor's cache are lost, the database stays;
  \<^item> \<open>Other\<close>: the rest of the service (monitor, administrative routes) writes the tables
    of events and webhooks; it never writes \<open>webhook_deliveries\<close>;
  \<^item> \<open>Faults\<close>: the database's script for the next queries.
\<close>

datatype action =
    ProcessEvent int nat
  | Immediate
  | Sweep int
  | Resume nat int axios_result
  | Restart
  | Other "TransactionEvent list" "Webhook list"
  | Faults "string option list"

fun apply_action :: "webhook_config \<Rightarrow> action \<Rightarrow> world \<Rightarrow> world" where
  "apply_action cfg (ProcessEvent now eventId) w = snd (processEvent now eventId w)"
| "apply_action cfg Immediate w =
     (case immediates w of
        [] \<Rightarrow> w
      | deliveryId # rest \<Rightarrow> w\<lparr>immediates := rest, running := running w @ [(deliveryId, AtSelect)]\<rparr>)"
| "apply_action cfg (Sweep now) w = processWebhookQueue now w"
| "apply_action cfg (Resume k now post) w =
     (if k < length (running w) then
        (case running w ! k of
           (deliveryId, p) \<Rightarrow>
             (case deliverWebhook_step cfg now post deliveryId (w, p) of
                (w', p') \<Rightarrow> w'\<lparr>running := (running w')[k := (deliveryId, p')]\<rparr>))
      else w)"
| "apply_action cfg Restart w =
     w\<lparr>immediates := [], running := [], lastProcessedTxs := reset (lastProcessedTxs w)\<rparr>"
| "apply_action cfg (Other evs whs) w =
     w\<lparr>store := (store w)\<lparr>transaction_events := evs, webhooks := whs\<rparr>\<rparr>"
| "apply_action cfg (Faults fs) w = w\<lparr>faults := fs\<rparr>"

fun run_actions :: "webhook_config \<Rightarrow> action list \<Rightarrow> world \<Rightarrow> world" where
  "run_actions cfg [] w = w"
| "run_actions cfg (a # as) w = run_actions cfg as (apply_action cfg a w)"

text \<open>A freshly migrated database with its events and webhooks, and nothing in flight.\<close>

definition initial_world :: "TransactionEvent list \<Rightarrow> Webhook list \<Rightarrow> string option list \<Rightarrow> world" where
  "initial_world evs whs fs =
     \<lparr> store = \<lparr> transaction_events = evs, webhooks = whs, webhook_deliveries = [] \<rparr>,
       faults = fs, immediates = [], running = [],
       lastProcessedTxs = \<lparr> addresses = [], contracts = [], maxSize = 1000 \<rparr>,
       last_checked_at = Map.empty, started = [], fetched = [] \<rparr>"

definition terminal :: "WebhookDeliveryStatus \<Rightarrow> bool" where
  "terminal s \<longleftrightarrow> s = SUCCEEDED \<or> s = MAX_RETRIES_EXCEEDED \<or> s = FAILED"

text \<open>
  Webhook \<open>i\<close> exists, is active and its set of event types contains \<open>t\<close>: the condition
  for a delivery to be created, stated on the table and not through the query.
\<close>

definition subscribed :: "db \<Rightarrow> EventType \<Rightarrow> nat \<Rightarrow> bool" where
  "subscribed d t i \<longleftrightarrow>
     i < length (webhooks d) \<and> is_active (webhooks d ! i) \<and> t \<in> set (event_types (webhooks d ! i))"


definition settled :: "nat \<Rightarrow> world \<Rightarrow> bool" where
  "settled i w \<longleftrightarrow>
     i < length (webhook_deliveries (store w)) \<and>
     terminal (status (webhook_deliveries (store w) ! i)) \<and>
     i \<notin> set (immediates w) \<and>
     (\<forall>t \<in> set (running w). fst t = i \<longrightarrow> snd t = Finished)"



text \<open>
  Consecutive invocations of \<^verbatim>\<open>deliverWebhook\<close> for one delivery, each run to its end
  before the next starts, with the clock reading and the outcome of the request of each.
\<close>

fun attempts :: "webhook_config \<Rightarrow> (int \<times> axios_result) list \<Rightarrow> nat \<Rightarrow> world \<Rightarrow> world" where
  "attempts cfg [] deliveryId w = w"
| "attempts cfg ((now, post) # rest) deliveryId w =
     attempts cfg rest deliveryId (deliverWebhook cfg now post deliveryId w)"

subsection \<open>A concrete scenario\<close>

text \<open>
  One event of kind \<open>ADA_RECEIVED\<close>, one active webhook subscribed to that kind, a reliable
  database, and an endpoint that answers HTTP 500 or HTTP 200.
\<close>

definition example_event :: TransactionEvent where
  "example_event =
     \<lparr> te_tx_hash = ''t1'', te_block_height = Some 7, te_block_time = Some 9000,
       event_type = ADA_RECEIVED,
       event_data = AddressData \<lparr> hash = ''t1'', block_height = 7, block_time = 9,
                                  asset_mint_count = 0, metadata = Some [] \<rparr> ''addr1'',
       address_id = Some ''a1'', contract_id = None, processed = False \<rparr>"

definition example_webhook :: Webhook where
  "example_webhook =
     \<lparr> url = ''https://example.org/hook'', secret = None, event_types = [ADA_RECEIVED],
       headers = None, is_active = True \<rparr>"

definition example_world :: world where
  "example_world = initial_world [example_event] [example_webhook] []"

definition http_500 :: axios_result where
  "http_500 = Rejected (Some (500, Some ''down'')) (Some ''Request failed with status code 500'')"

definition http_200 :: axios_result where
  "http_200 = Resolved 200 ''ok''"

text \<open>The delivery created for the event, before any attempt.\<close>

definition fresh_delivery :: world where
  "fresh_delivery = run_actions config_webhook [ProcessEvent 1000 0] example_world"

text \<open>The endpoint answers HTTP 500 to five and to six consecutive attempts.\<close>

definition five_failures :: world where
  "five_failures =
     attempts config_webhook
       [(2000, http_500), (20000, http_500), (50000, http_500), (110000, http_500),
        (230000, http_500)] 0 fresh_delivery"

definition six_failures :: world where
  "six_failures = deliverWebhook config_webhook 470000 http_500 0 five_failures"

text \<open>
  The callback registered at creation starts the attempt, the endpoint answers 200 and
  the four steps of the invocation run: the delivery has succeeded.
\<close>

definition delivered :: world where
  "delivered =
     run_actions config_webhook
       [ProcessEvent 1000 0, Immediate,
        Resume 0 1001 http_200, Resume 0 1002 http_200, Resume 0 1003 http_200,
        Resume 0 1004 http_200]
       example_world"

text \<open>
  Two invocations for one delivery. The callback registered at creation starts the first
  one, which issues its SELECT; the sweeper's query runs before the first invocation has
  marked the row, finds it still \<open>PENDING\<close> and starts a second invocation. Both mark the
  row and send their request; the first gets a 200 and records the success, while the
  second is still waiting for its answer.
\<close>

definition overlapping :: world where
  "overlapping =
     run_actions config_webhook
       [ProcessEvent 1000 0, Immediate, Resume 0 1001 http_200, Sweep 1002,
        Resume 0 1003 http_200, Resume 1 1004 http_500, Resume 1 1005 http_500,
        Resume 0 1006 http_200, Resume 0 1007 http_200]
       example_world"

text \<open>The same event, with the only webhook subscribed to another kind of event.\<close>

definition unsubscribed_world :: world where
  "unsubscribed_world =
     initial_world [example_event] [example_webhook\<lparr>event_types := [TOKEN_RECEIVED]\<rparr>] []"

text \<open>
  For the monitor: the watched address \<open>addr1\<close> receives 5000000 lovelace in transaction
  \<open>t1\<close>, which carries no metadata (Blockfrost returns an empty list of metadata items).
\<close>

definition example_address :: MonitoredAddress where
  "example_address = \<lparr> addr_id = ''a1'', addr_address = ''addr1'' \<rparr>"

definition example_tx :: address_tx where
  "example_tx =
     \<lparr> tx_hash = ''t1'', inputs = Some [],
       outputs = Some [\<lparr> address = ''addr1'',
                         amount = Some [Some \<lparr> unit = ''lovelace'', quantity = ''5000000'' \<rparr>] \<rparr>] \<rparr>"

definition example_blockfrost :: blockfrost where
  "example_blockfrost =
     \<lparr> addressesTransactions = (\<lambda>a. Inr [example_tx]),
       txs = (\<lambda>h. Inr \<lparr> hash = h, block_height = 7, block_time = 9 \<rparr>),
       txsMetadata = (\<lambda>h. Inr []) \<rparr>"

definition example_contract :: MonitoredContract where
  "example_contract = \<lparr> con_id = ''c1'', con_address = ''script1'' \<rparr>"

text \<open>A detail whose mint count is positive, and a small cache that is full.\<close>

definition minting_detail :: CardanoTransaction where
  "minting_detail =
     \<lparr> hash = ''t1'', block_height = 7, block_time = 9, asset_mint_count = 2,
       metadata = Some [] \<rparr>"

definition full_cache_world :: world where
  "full_cache_world =
     (initial_world [] [] [])\<lparr>lastProcessedTxs :=
        \<lparr> addresses = [''a1:t0'', ''a2:t9''], contracts = [''c1:t5''], maxSize = 2 \<rparr>\<rparr>"

text \<open>Blockfrost lists three transactions for the address: \<open>t0\<close>, \<open>t1\<close> and \<open>t2\<close>.\<close>

definition busy_blockfrost :: blockfrost where
  "busy_blockfrost =
     example_blockfrost\<lparr>addressesTransactions :=
        (\<lambda>a. Inr [example_tx\<lparr>tx_hash := ''t0''\<rparr>, example_tx, example_tx\<lparr>tx_hash := ''t2''\<rparr>])\<rparr>"

section \<open>Properties\<close>

subsection \<open>Tables and the fault script\<close>

lemma length_update_where_id [simp]: "length (update_where_id i f xs) = length xs"
  by (simp add: update_where_id_def)

lemma nth_update_where_id:
  "j < length xs \<Longrightarrow> update_where_id i f xs ! j = (if j = i then f (xs ! j) else xs ! j)"
  by (simp add: update_where_id_def)


lemma next_fault_eq: "next_fault w = (fst (next_fault w), w\<lparr>faults := tl (faults w)\<rparr>)"
  by (cases "faults w") (simp_all add: next_fault_def)

lemma next_fault_reliable [simp]: "faults w = [] \<Longrightarrow> next_fault w = (None, w)"
  by (simp add: next_fault_def)

lemma update_delivery_frame [simp]:
  "faults (update_delivery i f w) = faults w"
  "immediates (update_delivery i f w) = immediates w"
  "running (update_delivery i f w) = running w"
  "transaction_events (store (update_delivery i f w)) = transaction_events (store w)"
  "webhooks (store (update_delivery i f w)) = webhooks (store w)"
  "webhook_deliveries (store (update_delivery i f w)) =
     update_where_id i f (webhook_deliveries (store w))"
  by (simp_all add: update_delivery_def)

lemma upt_from_Suc: "[n ..< n + Suc k] = n # [Suc n ..< Suc n + k]"
  by (subst upt_rec) simp

lemmas eval_defs = example_world_def initial_world_def example_event_def example_webhook_def
  http_500_def http_200_def config_webhook_def processEvent_def next_fault_def select_webhooks_def
  queueWebhookDelivery_def new_delivery_def deliverWebhook_def select_delivery_def
  update_delivery_def update_where_id_def Math_pow2_def new_Date_def Let_def
  processWebhookQueue_def select_due_def due_def fresh_delivery_def five_failures_def
  six_failures_def delivered_def overlapping_def unsubscribed_world_def

subsection \<open>One failed attempt\<close>


lemma select_due_due:
  "j \<in> set (select_due now d) \<Longrightarrow>
     j < length (webhook_deliveries d) \<and> due now (webhook_deliveries d ! j)"
  unfolding select_due_def by (auto dest!: in_set_takeD)

text \<open>
  C1 (the code departs from the claim). After the first failed attempt of a fresh delivery,
  made at time 2000 with the default configuration, \<open>next_retry_at\<close> is 2000 + 15000, half
  the base delay, where the claim has 2000 + 30000; the second and third failures schedule
  30000 and 60000 where the claim has 60000 and 120000. The loaded row still holds the
  attempt count from before the increment, so attempt \<open>k\<close> waits
  \<open>retryDelay * 2^(k - 2)\<close>.
\<close>

theorem retry_delay_uses_stale_attempt_count:
  "next_retry_at (webhook_deliveries (store
      (attempts config_webhook [(2000, http_500)] 0 fresh_delivery)) ! 0)
     = Some (2000 + 15000) \<and>
   next_retry_at (webhook_deliveries (store
      (attempts config_webhook [(2000, http_500), (20000, http_500)] 0 fresh_delivery)) ! 0)
     = Some (20000 + 30000) \<and>
   next_retry_at (webhook_deliveries (store
      (attempts config_webhook [(2000, http_500), (20000, http_500), (50000, http_500)] 0
         fresh_delivery)) ! 0)
     = Some (50000 + 60000)"
  by (simp add: eval_defs)




subsection \<open>Steps of the processor\<close>

text \<open>A step of \<^verbatim>\<open>deliverWebhook\<close> writes one row of one table and nothing else.\<close>

lemma step_frame:
  assumes "deliverWebhook_step cfg now post i (w, p) = (w', p')"
  shows "immediates w' = immediates w \<and> running w' = running w \<and>
    length (webhook_deliveries (store w')) = length (webhook_deliveries (store w)) \<and>
    (\<forall>j. j \<noteq> i \<longrightarrow> j < length (webhook_deliveries (store w)) \<longrightarrow>
         webhook_deliveries (store w') ! j = webhook_deliveries (store w) ! j)"
proof -
  obtain f where nf: "next_fault w = (f, w\<lparr>faults := tl (faults w)\<rparr>)"
    using next_fault_eq by blast
  show ?thesis
  proof (cases p)
    case AtSelect
    with assms nf show ?thesis by (auto split: option.splits list.splits)
  next
    case (AtMarkInProgress d)
    with assms nf show ?thesis by (auto simp: nth_update_where_id split: option.splits)
  next
    case (AtPost d)
    with assms show ?thesis by (auto simp: Let_def split: axios_result.splits)
  next
    case (AtRecordSuccess d st data)
    with assms nf show ?thesis by (auto simp: nth_update_where_id split: option.splits)
  next
    case (AtRecordFailure d sc body)
    with assms nf show ?thesis
      by (auto simp: Let_def nth_update_where_id split: option.splits if_splits)
  next
    case (AtFailed msg)
    with assms nf show ?thesis by (auto simp: nth_update_where_id split: option.splits)
  next
    case Finished
    with assms show ?thesis by auto
  qed
qed


lemma queueWebhookDelivery_effect:
  assumes "queueWebhookDelivery now webhookId eventId w = (r, w')"
  shows "transaction_events (store w') = transaction_events (store w) \<and>
         webhooks (store w') = webhooks (store w) \<and>
         running w' = running w \<and>
         (case r of
            Inl _ \<Rightarrow> webhook_deliveries (store w') = webhook_deliveries (store w) \<and>
                     immediates w' = immediates w
          | Inr i \<Rightarrow> i = length (webhook_deliveries (store w)) \<and>
                     webhook_deliveries (store w') =
                       webhook_deliveries (store w) @ [new_delivery now eventId webhookId] \<and>
                     immediates w' = immediates w @ [i])"
proof -
  obtain f where nf: "next_fault w = (f, w\<lparr>faults := tl (faults w)\<rparr>)"
    using next_fault_eq by blast
  with assms show ?thesis
    by (auto simp: queueWebhookDelivery_def Let_def split: option.splits if_splits)
qed

lemma queueWebhookDelivery_reliable:
  assumes "faults w = []" "webhookId < length (webhooks (store w))"
    "eventId < length (transaction_events (store w))"
  shows "queueWebhookDelivery now webhookId eventId w =
     (Inr (length (webhook_deliveries (store w))),
      w\<lparr>store := (store w)\<lparr>webhook_deliveries :=
             webhook_deliveries (store w) @ [new_delivery now eventId webhookId]\<rparr>,
        immediates := immediates w @ [length (webhook_deliveries (store w))]\<rparr>)"
  using assms by (simp add: queueWebhookDelivery_def Let_def)

lemma queue_webhooks_effect:
  "queue_webhooks now ids eventId w = (r, w') \<Longrightarrow>
     transaction_events (store w') = transaction_events (store w) \<and>
     webhooks (store w') = webhooks (store w) \<and>
     running w' = running w \<and>
     (\<exists>k \<le> length ids.
        webhook_deliveries (store w') =
          webhook_deliveries (store w) @ map (new_delivery now eventId) (take k ids) \<and>
        immediates w' = immediates w @
          [length (webhook_deliveries (store w)) ..< length (webhook_deliveries (store w)) + k])"
proof (induction ids arbitrary: w)
  case Nil
  then show ?case by auto
next
  case (Cons webhookId rest)
  obtain q w1 where q: "queueWebhookDelivery now webhookId eventId w = (q, w1)"
    by (cases "queueWebhookDelivery now webhookId eventId w")
  note eff = queueWebhookDelivery_effect [OF q]
  show ?case
  proof (cases q)
    case (Inl msg)
    with Cons.prems q eff have "w' = w1"
      and e: "webhook_deliveries (store w1) = webhook_deliveries (store w)"
        "immediates w1 = immediates w"
      by auto
    with eff show ?thesis by (intro conjI exI [of _ 0]) auto
  next
    case (Inr i)
    with Cons.prems q have rec: "queue_webhooks now rest eventId w1 = (r, w')" by simp
    from Cons.IH [OF rec] obtain k where k: "k \<le> length rest"
      "webhook_deliveries (store w') =
          webhook_deliveries (store w1) @ map (new_delivery now eventId) (take k rest)"
      "immediates w' = immediates w1 @
          [length (webhook_deliveries (store w1)) ..< length (webhook_deliveries (store w1)) + k]"
      and fr: "transaction_events (store w') = transaction_events (store w1)"
        "webhooks (store w') = webhooks (store w1)" "running w' = running w1"
      by auto
    from eff Inr have e1: "webhook_deliveries (store w1) =
        webhook_deliveries (store w) @ [new_delivery now eventId webhookId]"
      "immediates w1 = immediates w @ [length (webhook_deliveries (store w))]"
      by auto
    with k fr eff upt_from_Suc [of "length (webhook_deliveries (store w))" k] show ?thesis
      by (intro conjI exI [of _ "Suc k"]) auto
  qed
qed

lemma queue_webhooks_reliable:
  "faults w = [] \<Longrightarrow> \<forall>i \<in> set ids. i < length (webhooks (store w)) \<Longrightarrow>
   eventId < length (transaction_events (store w)) \<Longrightarrow>
   queue_webhooks now ids eventId w =
     (None,
      w\<lparr>store := (store w)\<lparr>webhook_deliveries :=
             webhook_deliveries (store w) @ map (new_delivery now eventId) ids\<rparr>,
        immediates := immediates w @
          [length (webhook_deliveries (store w)) ..<
           length (webhook_deliveries (store w)) + length ids]\<rparr>)"
proof (induction ids arbitrary: w)
  case Nil
  then show ?case by simp
next
  case (Cons webhookId rest)
  with upt_from_Suc [of "length (webhook_deliveries (store w))" "length rest"] show ?case
    by (simp add: queueWebhookDelivery_reliable)
qed

lemma processEvent_reliable:
  assumes "faults w = []" and "eventId < length (transaction_events (store w))"
  shows "processEvent now eventId w =
     (None,
      w\<lparr>store := (store w)\<lparr>
            transaction_events := (transaction_events (store w))
               [eventId := (transaction_events (store w) ! eventId)\<lparr>processed := True\<rparr>],
            webhook_deliveries := webhook_deliveries (store w) @
               map (new_delivery now eventId)
                 (select_webhooks (store w) (event_type (transaction_events (store w) ! eventId)))\<rparr>,
        immediates := immediates w @
          [length (webhook_deliveries (store w)) ..<
           length (webhook_deliveries (store w)) +
           length (select_webhooks (store w) (event_type (transaction_events (store w) ! eventId)))]\<rparr>)"
proof -
  let ?t = "event_type (transaction_events (store w) ! eventId)"
  let ?w3 = "w\<lparr>store := (store w)\<lparr>transaction_events :=
               update_where_id eventId (\<lambda>e. e\<lparr>processed := True\<rparr>) (transaction_events (store w))\<rparr>\<rparr>"
  have sel: "select_webhooks (store ?w3) ?t = select_webhooks (store w) ?t"
    by (simp add: select_webhooks_def)
  have valid: "\<forall>i \<in> set (select_webhooks (store w) ?t). i < length (webhooks (store ?w3))"
    by (simp add: select_webhooks_def)
  have q: "queue_webhooks now (select_webhooks (store w) ?t) eventId ?w3 = 
     (None,
      ?w3\<lparr>store := (store ?w3)\<lparr>webhook_deliveries :=
             webhook_deliveries (store ?w3) @
               map (new_delivery now eventId) (select_webhooks (store w) ?t)\<rparr>,
        immediates := immediates ?w3 @
          [length (webhook_deliveries (store ?w3)) ..<
           length (webhook_deliveries (store ?w3)) + length (select_webhooks (store w) ?t)]\<rparr>)"
    using assms valid by (intro queue_webhooks_reliable) simp_all
  show ?thesis
    using assms sel q
    by (simp add: processEvent_def Let_def update_where_id_def)
qed

text \<open>\<^verbatim>\<open>processEvent\<close> with the three queries it issues before the loop made explicit.\<close>

lemma processEvent_unfold:
  "processEvent now eventId w =
    (let f1 = fst (next_fault w); w1 = w\<lparr>faults := tl (faults w)\<rparr>;
         f2 = fst (next_fault w1); w2 = w1\<lparr>faults := tl (faults w1)\<rparr>;
         w3 = w2\<lparr>store := (store w2)\<lparr>transaction_events :=
                 update_where_id eventId (\<lambda>e. e\<lparr>processed := True\<rparr>)
                   (transaction_events (store w2))\<rparr>\<rparr>;
         f3 = fst (next_fault w3); w4 = w3\<lparr>faults := tl (faults w3)\<rparr>;
         matching = select_webhooks (store w4) (event_type (transaction_events (store w1) ! eventId))
     in case f1 of Some msg \<Rightarrow> (Some msg, w1)
        | None \<Rightarrow>
           if \<not> eventId < length (transaction_events (store w1)) then (None, w1)
           else case f2 of Some msg \<Rightarrow> (Some msg, w2)
                | None \<Rightarrow> (case f3 of Some msg \<Rightarrow> (Some msg, w4)
                           | None \<Rightarrow> if matching = [] then (None, w4)
                                     else queue_webhooks now matching eventId w4))"
proof -
  define w1 where "w1 = w\<lparr>faults := tl (faults w)\<rparr>"
  define w2 where "w2 = w1\<lparr>faults := tl (faults w1)\<rparr>"
  define w3 where "w3 = w2\<lparr>store := (store w2)\<lparr>transaction_events :=
                 update_where_id eventId (\<lambda>e. e\<lparr>processed := True\<rparr>)
                   (transaction_events (store w2))\<rparr>\<rparr>"
  define w4 where "w4 = w3\<lparr>faults := tl (faults w3)\<rparr>"
  have nf: "next_fault w = (fst (next_fault w), w1)" "next_fault w1 = (fst (next_fault w1), w2)"
     "next_fault w3 = (fst (next_fault w3), w4)"
    unfolding w1_def w2_def w4_def by (rule next_fault_eq)+
  show ?thesis
    unfolding processEvent_def Let_def
    apply (subst nf(1))
    apply (simp only: prod.case w1_def [symmetric])
    apply (cases "fst (next_fault w)")
     apply (simp_all only: option.case)
    apply (subst nf(2))
    apply (simp only: prod.case w2_def [symmetric])
    apply (cases "fst (next_fault w1)")
     apply (simp_all only: option.case w3_def [symmetric])
    apply (subst nf(3))
    apply (simp only: prod.case w4_def [symmetric])
    done
qed

subsection \<open>Invariants of the event loop\<close>

lemma processEvent_effect:
  assumes "processEvent now eventId w = (r, w')"
  shows "webhooks (store w') = webhooks (store w) \<and> running w' = running w \<and>
     (\<exists>ids. webhook_deliveries (store w') =
              webhook_deliveries (store w) @ map (new_delivery now eventId) ids \<and>
            immediates w' = immediates w @
              [length (webhook_deliveries (store w)) ..<
               length (webhook_deliveries (store w)) + length ids])"
proof -
  define w1 where "w1 = w\<lparr>faults := tl (faults w)\<rparr>"
  define w2 where "w2 = w1\<lparr>faults := tl (faults w1)\<rparr>"
  define w3 where "w3 = w2\<lparr>store := (store w2)\<lparr>transaction_events :=
                 update_where_id eventId (\<lambda>e. e\<lparr>processed := True\<rparr>)
                   (transaction_events (store w2))\<rparr>\<rparr>"
  define w4 where "w4 = w3\<lparr>faults := tl (faults w3)\<rparr>"
  define matching where
    "matching = select_webhooks (store w4) (event_type (transaction_events (store w1) ! eventId))"
  have same: "\<And>v. v \<in> {w1, w2, w3, w4} \<Longrightarrow>
      webhooks (store v) = webhooks (store w) \<and> running v = running w \<and>
      webhook_deliveries (store v) = webhook_deliveries (store w) \<and> immediates v = immediates w"
    by (auto simp: w1_def w2_def w3_def w4_def)
  have stay: "\<And>v. v \<in> {w1, w2, w3, w4} \<Longrightarrow> w' = v \<Longrightarrow> ?thesis"
    using same by (intro conjI exI [of _ "[]"]) auto
  from assms have r: "(r, w') =
       (case fst (next_fault w) of Some msg \<Rightarrow> (Some msg, w1)
        | None \<Rightarrow>
           if \<not> eventId < length (transaction_events (store w1)) then (None, w1)
           else case fst (next_fault w1) of Some msg \<Rightarrow> (Some msg, w2)
                | None \<Rightarrow> (case fst (next_fault w3) of Some msg \<Rightarrow> (Some msg, w4)
                           | None \<Rightarrow> if matching = [] then (None, w4)
                                     else queue_webhooks now matching eventId w4))"
    unfolding processEvent_unfold Let_def w1_def w2_def w3_def w4_def matching_def by simp
  show ?thesis
  proof (cases "fst (next_fault w) = None \<and> eventId < length (transaction_events (store w1)) \<and>
                 fst (next_fault w1) = None \<and> fst (next_fault w3) = None \<and> matching \<noteq> []")
    case True
    with r have q: "queue_webhooks now matching eventId w4 = (r, w')" by simp
    from queue_webhooks_effect [OF q] obtain k where k: "k \<le> length matching"
        "webhook_deliveries (store w') =
           webhook_deliveries (store w4) @ map (new_delivery now eventId) (take k matching)"
        "immediates w' = immediates w4 @
           [length (webhook_deliveries (store w4)) ..< length (webhook_deliveries (store w4)) + k]"
      and fr: "webhooks (store w') = webhooks (store w4)" "running w' = running w4"
      by auto
    with same [of w4] show ?thesis
      by (intro conjI exI [of _ "take k matching"]) (auto simp: min_absorb2)
  next
    case False
    with r have "w' \<in> {w1, w2, w3, w4}"
      by (auto split: option.splits if_splits)
    with stay show ?thesis by blast
  qed
qed






lemma apply_action_keeps_settled:
  assumes "settled i w"
  shows "settled i (apply_action cfg a w) \<and>
         webhook_deliveries (store (apply_action cfg a w)) ! i = webhook_deliveries (store w) ! i"
proof (cases a)
  case (ProcessEvent now eventId)
  obtain r w' where pe: "processEvent now eventId w = (r, w')"
    by (cases "processEvent now eventId w")
  from processEvent_effect [OF pe] obtain ids where
    "webhook_deliveries (store w') = webhook_deliveries (store w) @ map (new_delivery now eventId) ids"
    "immediates w' = immediates w @
              [length (webhook_deliveries (store w)) ..<
               length (webhook_deliveries (store w)) + length ids]"
    "running w' = running w"
    by auto
  with assms pe ProcessEvent show ?thesis
    by (auto simp: settled_def nth_append)
next
  case Immediate
  with assms show ?thesis by (auto simp: settled_def split: list.splits)
next
  case (Sweep now)
  obtain f where nf: "next_fault w = (f, w\<lparr>faults := tl (faults w)\<rparr>)"
    using next_fault_eq by blast
  have "i \<notin> set (select_due now (store w))"
    using assms select_due_due [of i now "store w"] by (auto simp: settled_def terminal_def due_def)
  with assms Sweep nf show ?thesis
    by (auto simp: settled_def processWebhookQueue_def select_due_def split: option.splits)
next
  case (Resume k now post)
  show ?thesis
  proof (cases "k < length (running w)")
    case True
    obtain j p where jp: "running w ! k = (j, p)" by (cases "running w ! k")
    obtain w' p' where st: "deliverWebhook_step cfg now post j (w, p) = (w', p')"
      by (cases "deliverWebhook_step cfg now post j (w, p)")
    note fr = step_frame [OF st]
    have res: "apply_action cfg a w = w'\<lparr>running := (running w)[k := (j, p')]\<rparr>"
      using Resume True jp st fr by simp
    show ?thesis
    proof (cases "j = i")
      case True
      with assms jp \<open>k < length (running w)\<close> have "p = Finished"
        using nth_mem [of k "running w"] by (auto simp: settled_def)
      with st have "w' = w" "p' = Finished" by auto
      moreover have "(running w)[k := (j, Finished)] = running w"
        using jp \<open>p = Finished\<close> list_update_id [of "running w" k] by simp
      ultimately show ?thesis using res assms by simp
    next
      case False
      have "\<forall>t \<in> set ((running w)[k := (j, p')]). fst t = i \<longrightarrow> snd t = Finished"
        using assms False set_update_subset_insert [of "running w" k "(j, p')"]
        by (auto simp: settled_def)
      with res fr assms False show ?thesis
        by (auto simp: settled_def)
    qed
  next
    case False
    with assms Resume show ?thesis by simp
  qed
next
  case Restart
  with assms show ?thesis by (simp add: settled_def)
next
  case (Other evs whs)
  with assms show ?thesis by (simp add: settled_def)
next
  case (Faults fs)
  with assms show ?thesis by (simp add: settled_def)
qed

text \<open>
  C4, as stated, fails: in the state \<open>overlapping\<close> the delivery has status \<open>SUCCEEDED\<close>;
  the request of the second invocation then fails, and recording that failure sets the
  status back to \<open>RETRYING\<close>.
\<close>

theorem terminal_status_counterexample:
  "status (webhook_deliveries (store overlapping) ! 0) = SUCCEEDED \<and>
   status (webhook_deliveries (store (run_actions config_webhook
      [Resume 1 1008 http_500, Resume 1 1009 http_500] overlapping)) ! 0) = RETRYING"
  by (simp add: eval_defs)

text \<open>
  C4, amended. Once a delivery has a terminal status and no attempt for it is pending or
  in flight (\<open>settled\<close>), no sequence of actions of the process changes its row, and the
  delivery stays settled: callbacks are registered only for new rows, and the sweeper
  starts invocations only for rows that are \<open>PENDING\<close> or \<open>RETRYING\<close>.
\<close>

theorem settled_delivery_is_stable:
  "settled i w \<Longrightarrow>
     settled i (run_actions cfg acts w) \<and>
     webhook_deliveries (store (run_actions cfg acts w)) ! i = webhook_deliveries (store w) ! i"
proof (induction acts arbitrary: w)
  case Nil
  then show ?case by simp
next
  case (Cons a acts)
  from apply_action_keeps_settled [OF Cons.prems, of cfg a]
  have s: "settled i (apply_action cfg a w)"
    and r: "webhook_deliveries (store (apply_action cfg a w)) ! i = webhook_deliveries (store w) ! i"
    by auto
  from Cons.IH [OF s] r show ?case by simp
qed


theorem settled_delivery_is_stable_witness:
  "settled 0 delivered \<and>
   settled 0 (run_actions config_webhook
      [Sweep 5000, ProcessEvent 6000 0, Immediate, Resume 1 6001 http_500, Restart, Sweep 9000]
      delivered) \<and>
   status (webhook_deliveries (store (run_actions config_webhook
      [Sweep 5000, ProcessEvent 6000 0, Immediate, Resume 1 6001 http_500, Restart, Sweep 9000]
      delivered)) ! 0) = SUCCEEDED"
proof -
  have h: "settled 0 delivered"
    by (simp add: settled_def terminal_def eval_defs)
  have s: "status (webhook_deliveries (store delivered) ! 0) = SUCCEEDED"
    by (simp add: eval_defs)
  from settled_delivery_is_stable [OF h, of config_webhook
      "[Sweep 5000, ProcessEvent 6000 0, Immediate, Resume 1 6001 http_500, Restart, Sweep 9000]"]
  show ?thesis using h s by simp
qed

subsection \<open>processEvent\<close>

lemma filter_eq_upt:
  "filter (\<lambda>j. j = i \<and> P j) [0 ..< n] = (if i < n \<and> P i then [i] else [])"
  by (induction n) auto

lemma count_select_webhooks:
  "length (filter (\<lambda>j. j = i) (select_webhooks d t)) =
     (if i < length (webhooks d) \<and> is_active (webhooks d ! i) \<and> t \<in> set (event_types (webhooks d ! i))
      then 1 else 0)"
proof -
  have "filter (\<lambda>j. j = i) (select_webhooks d t) =
        filter (\<lambda>j. j = i \<and> (is_active (webhooks d ! j) \<and> t \<in> set (event_types (webhooks d ! j))))
          [0 ..< length (webhooks d)]"
    by (simp add: select_webhooks_def conj_commute)
  then show ?thesis by (simp add: filter_eq_upt)
qed

text \<open>
  C8. When the database is reliable and the event exists, \<^verbatim>\<open>processEvent\<close> leaves the
  existing delivery rows as they are and appends new ones; every new row has status
  \<open>PENDING\<close>, attempt count 0 and the event's id, and belongs to an active webhook
  subscribed to the event's type; and for every webhook id the number of new rows is 1 if
  that webhook is active and subscribed to the event's type, and 0 otherwise. With no such
  webhook, no row is created.
\<close>

theorem processEvent_creates_deliveries:
  assumes "faults w = []" and "eventId < length (transaction_events (store w))"
  shows "take (length (webhook_deliveries (store w)))
           (webhook_deliveries (store (snd (processEvent now eventId w))))
           = webhook_deliveries (store w) \<and>
         (\<forall>r \<in> set (drop (length (webhook_deliveries (store w)))
                    (webhook_deliveries (store (snd (processEvent now eventId w))))).
            status r = PENDING \<and> attempt_count r = 0 \<and> event_id r = eventId \<and>
            subscribed (store w) (event_type (transaction_events (store w) ! eventId)) (webhook_id r)) \<and>
         (\<forall>i. length (filter (\<lambda>r. webhook_id r = i)
                  (drop (length (webhook_deliveries (store w)))
                    (webhook_deliveries (store (snd (processEvent now eventId w)))))) =
               (if subscribed (store w) (event_type (transaction_events (store w) ! eventId)) i
                then 1 else 0))"
proof -
  let ?t = "event_type (transaction_events (store w) ! eventId)"
  let ?sel = "select_webhooks (store w) ?t"
  have ds: "webhook_deliveries (store (snd (processEvent now eventId w))) =
      webhook_deliveries (store w) @ map (new_delivery now eventId) ?sel"
    using assms by (simp add: processEvent_reliable)
  have sub: "\<forall>j \<in> set ?sel. subscribed (store w) ?t j"
    by (auto simp: select_webhooks_def subscribed_def)
  have cnt: "length (filter (\<lambda>r. webhook_id r = i) (map (new_delivery now eventId) ?sel)) =
      (if subscribed (store w) ?t i then 1 else 0)" for i
  proof -
    have "filter (\<lambda>r. webhook_id r = i) (map (new_delivery now eventId) ?sel) =
          map (new_delivery now eventId) (filter (\<lambda>j. j = i) ?sel)"
      by (simp add: filter_map comp_def new_delivery_def)
    then show ?thesis
      using count_select_webhooks [of i "store w" ?t] by (simp add: subscribed_def)
  qed
  show ?thesis
    using sub cnt by (auto simp: ds new_delivery_def)
qed

theorem processEvent_creates_deliveries_witness:
  "faults example_world = [] \<and> 0 < length (transaction_events (store example_world)) \<and>
   subscribed (store example_world) ADA_RECEIVED 0 \<and>
   length (filter (\<lambda>r. webhook_id r = 0)
     (drop (length (webhook_deliveries (store example_world)))
        (webhook_deliveries (store (snd (processEvent 1000 0 example_world)))))) = 1 \<and>
   webhook_deliveries (store (snd (processEvent 1000 0 example_world))) = [new_delivery 1000 0 0] \<and>
   faults unsubscribed_world = [] \<and> 0 < length (transaction_events (store unsubscribed_world)) \<and>
   \<not> subscribed (store unsubscribed_world) ADA_RECEIVED 0 \<and>
   length (filter (\<lambda>r. webhook_id r = 0)
     (drop (length (webhook_deliveries (store unsubscribed_world)))
        (webhook_deliveries (store (snd (processEvent 1000 0 unsubscribed_world)))))) = 0 \<and>
   webhook_deliveries (store (snd (processEvent 1000 0 unsubscribed_world))) = []"
proof -
  have h: "faults example_world = []" "0 < length (transaction_events (store example_world))"
    and h': "faults unsubscribed_world = []"
      "0 < length (transaction_events (store unsubscribed_world))"
    by (simp_all add: eval_defs)
  have t: "event_type (transaction_events (store example_world) ! 0) = ADA_RECEIVED"
      "event_type (transaction_events (store unsubscribed_world) ! 0) = ADA_RECEIVED"
    and s: "subscribed (store example_world) ADA_RECEIVED 0"
      "\<not> subscribed (store unsubscribed_world) ADA_RECEIVED 0"
    by (simp_all add: eval_defs subscribed_def)
  have d: "webhook_deliveries (store (snd (processEvent 1000 0 example_world))) = [new_delivery 1000 0 0]"
    "webhook_deliveries (store (snd (processEvent 1000 0 unsubscribed_world))) = []"
    by (simp_all add: eval_defs)
  from processEvent_creates_deliveries [OF h, of 1000]
       processEvent_creates_deliveries [OF h', of 1000]
  show ?thesis using h h' s d by (simp add: t)
qed

lemma first_two_succeed:
  assumes "\<forall>f \<in> set (take 2 (faults w)). f = None"
  shows "fst (next_fault w) = None" "fst (next_fault (w\<lparr>faults := tl (faults w)\<rparr>)) = None"
proof -
  show "fst (next_fault w) = None"
    using assms by (cases "faults w") (auto simp: next_fault_def)
  show "fst (next_fault (w\<lparr>faults := tl (faults w)\<rparr>)) = None"
  proof (cases "faults w")
    case Nil
    then show ?thesis by (simp add: next_fault_def)
  next
    case (Cons f fs)
    with assms show ?thesis by (cases fs) (auto simp: next_fault_def numeral_2_eq_2)
  qed
qed

text \<open>
  C10. When the event exists and the first two queries of \<^verbatim>\<open>processEvent\<close> (the SELECT of
  the event and the UPDATE) succeed, the table of events afterwards is the table before
  with \<open>processed = True\<close> in that event's row and nothing else changed. This holds
  whatever happens next: whether the query that matches webhooks succeeds or throws,
  whether any webhook matches, and whether the insertion of deliveries fails. So the
  flag is set before the matching and independently of it.
\<close>

theorem processEvent_marks_processed:
  assumes "eventId < length (transaction_events (store w))"
    and "\<forall>f \<in> set (take 2 (faults w)). f = None"
  shows "transaction_events (store (snd (processEvent now eventId w))) =
     (transaction_events (store w))
       [eventId := (transaction_events (store w) ! eventId)\<lparr>processed := True\<rparr>]"
proof -
  define w1 where "w1 = w\<lparr>faults := tl (faults w)\<rparr>"
  define w2 where "w2 = w1\<lparr>faults := tl (faults w1)\<rparr>"
  define w3 where "w3 = w2\<lparr>store := (store w2)\<lparr>transaction_events :=
                 update_where_id eventId (\<lambda>e. e\<lparr>processed := True\<rparr>)
                   (transaction_events (store w2))\<rparr>\<rparr>"
  define w4 where "w4 = w3\<lparr>faults := tl (faults w3)\<rparr>"
  define matching where
    "matching = select_webhooks (store w4) (event_type (transaction_events (store w1) ! eventId))"
  have ev4: "transaction_events (store w4) = (transaction_events (store w))
       [eventId := (transaction_events (store w) ! eventId)\<lparr>processed := True\<rparr>]"
    using assms(1) by (simp add: w4_def w3_def w2_def w1_def update_where_id_def)
  from first_two_succeed [OF assms(2)]
  have f: "fst (next_fault w) = None" "fst (next_fault w1) = None"
    by (simp_all add: w1_def)
  have r: "processEvent now eventId w =
       (case fst (next_fault w3) of Some msg \<Rightarrow> (Some msg, w4)
        | None \<Rightarrow> if matching = [] then (None, w4)
                  else queue_webhooks now matching eventId w4)"
    unfolding processEvent_unfold Let_def w1_def [symmetric]
    unfolding w2_def [symmetric] unfolding w3_def [symmetric]
    unfolding w4_def [symmetric] unfolding matching_def [symmetric]
    using f assms(1) by (simp add: w1_def)
  show ?thesis
  proof (cases "fst (next_fault w3) = None \<and> matching \<noteq> []")
    case True
    obtain q w' where q: "queue_webhooks now matching eventId w4 = (q, w')"
      by (cases "queue_webhooks now matching eventId w4")
    from queue_webhooks_effect [OF q] have "transaction_events (store w') = transaction_events (store w4)"
      by simp
    with True r q ev4 show ?thesis by simp
  next
    case False
    with r have "snd (processEvent now eventId w) = w4"
      by (auto split: option.splits)
    with ev4 show ?thesis by simp
  qed
qed

theorem processEvent_marks_processed_witness:
  "0 < length (transaction_events (store unsubscribed_world)) \<and>
   take 2 (faults unsubscribed_world) = [] \<and>
   transaction_events (store (snd (processEvent 1000 0 unsubscribed_world))) =
     [example_event\<lparr>processed := True\<rparr>] \<and>
   webhook_deliveries (store (snd (processEvent 1000 0 unsubscribed_world))) = []"
proof -
  have h: "0 < length (transaction_events (store unsubscribed_world))"
    "\<forall>f \<in> set (take 2 (faults unsubscribed_world)). f = None"
    by (simp_all add: eval_defs)
  have e: "transaction_events (store unsubscribed_world) = [example_event]"
    and d: "webhook_deliveries (store (snd (processEvent 1000 0 unsubscribed_world))) = []"
    by (simp_all add: eval_defs)
  have t: "take 2 (faults unsubscribed_world) = []"
    by (simp add: eval_defs)
  from processEvent_marks_processed [OF h, of 1000]
  show ?thesis using h d t by (simp add: e)
qed

subsection \<open>Monitor\<close>

lemmas monitor_defs = checkAddressTransactions_def process_address_tx_def getTransactionInfo_def
  eventTypes_def appears_in_def lovelace_sum_def tokens_of_def amounts_at_def present_where_def
  parseInt_def
  is_white_def is_digit_def digits_value_def number_add_def number_positive_def
  createTransactionEvent_def address_event_def remember_address_tx_def reset_def Set_add_def
  example_address_def example_tx_def example_blockfrost_def initial_world_def next_fault_def Let_def
  full_cache_world_def minting_detail_def example_contract_def contract_events_def contract_event_def
  busy_blockfrost_def


lemma getTransactionInfo_detail:
  assumes "getTransactionInfo bf h = Inr t"
  shows "asset_mint_count t = 0 \<and> metadata t \<noteq> None"
  using assms
  by (auto simp: getTransactionInfo_def Let_def split: sum.splits if_splits)















lemma metadata_added_count:
  "length (filter (\<lambda>t. t = METADATA_ADDED) (eventTypes a tx txInfo)) =
     (if metadata txInfo \<noteq> None then 1 else 0)"
  by (simp add: eventTypes_def Let_def)

lemma metadata_always_added:
  assumes "getTransactionInfo bf h = Inr txInfo"
  shows "METADATA_ADDED \<in> set (eventTypes a tx txInfo)"
  using getTransactionInfo_detail [OF assms] by (simp add: eventTypes_def Let_def)

text \<open>
  C5 (the code departs from the claim). For the transaction \<open>t1\<close>, for which Blockfrost
  returns no metadata, the detail built by \<^verbatim>\<open>getTransactionInfo\<close> has the empty object as
  its metadata, and the scan of the address still creates a \<open>METADATA_ADDED\<close> event.
\<close>

theorem metadata_added_without_metadata:
  "getTransactionInfo example_blockfrost ''t1'' =
     Inr \<lparr> hash = ''t1'', block_height = 7, block_time = 9, asset_mint_count = 0,
           metadata = Some [] \<rparr> \<and>
   map event_type (transaction_events (store
     (checkAddressTransactions example_blockfrost 500 example_address (initial_world [] [] []))))
   = [TRANSACTION_RECEIVED, ADA_RECEIVED, METADATA_ADDED]"
  by (simp add: monitor_defs)




end
